theory Spec2Isabelle
  imports Main
begin

section \<open>Python values decoded from a JSON line\<close>

text \<open>
  The program \<^verbatim>\<open>visualize.py\<close> reads one JSON document per line and prints a
  styled summary of it. This theory embeds its four functions
  (\<^verbatim>\<open>get_event_style\<close>, \<^verbatim>\<open>safe_str\<close>, \<^verbatim>\<open>format_opencode_event\<close>,
  \<^verbatim>\<open>process_stream\<close>) together with the Python built-ins they call.

  A Python \<^verbatim>\<open>str\<close> is a sequence of Unicode code points, and \<^verbatim>\<open>len\<close> and slicing
  count code points, so a string is a list of code points (natural numbers) here.
  An ASCII literal \<^verbatim>\<open>"abc"\<close> is written \<open>py ''abc''\<close>; the glyphs of the source that
  lie outside ASCII are written as their code points.

  The values that \<^verbatim>\<open>json.loads\<close> produces are \<^verbatim>\<open>None\<close>, \<^verbatim>\<open>bool\<close>, \<^verbatim>\<open>int\<close>,
  \<^verbatim>\<open>str\<close>, \<^verbatim>\<open>list\<close> and \<^verbatim>\<open>dict\<close> (keys in insertion order). JSON numbers with a
  fraction or an exponent decode to Python floats; floating point is outside this
  embedding, which covers the documents whose numbers are integers.
\<close>

type_synonym pystr = "nat list"

abbreviation py :: "string \<Rightarrow> pystr" where
  "py \<equiv> map of_char"

datatype json =
    JNull
  | JBool bool
  | JInt int
  | JStr pystr
  | JArr "json list"
  | JObj "(pystr \<times> json) list"

datatype py_error = AttributeError | TypeError | KeyError | OverflowError

text \<open>Truth value testing (\<^verbatim>\<open>if x:\<close>).\<close>

fun truthy :: "json \<Rightarrow> bool" where
  "truthy JNull = False"
| "truthy (JBool b) = b"
| "truthy (JInt i) = (i \<noteq> 0)"
| "truthy (JStr s) = (s \<noteq> [])"
| "truthy (JArr xs) = (xs \<noteq> [])"
| "truthy (JObj kvs) = (kvs \<noteq> [])"

text \<open>
  \<^verbatim>\<open>x.get(key, default)\<close>: only a \<^verbatim>\<open>dict\<close> has the method; on every other value
  the attribute lookup raises \<^verbatim>\<open>AttributeError\<close>. A key that is present with the
  value \<^verbatim>\<open>null\<close> yields \<^verbatim>\<open>None\<close>, not the default.
\<close>

definition dict_get :: "(pystr \<times> json) list \<Rightarrow> pystr \<Rightarrow> json \<Rightarrow> json" where
  "dict_get kvs k d = (case map_of kvs k of Some v \<Rightarrow> v | None \<Rightarrow> d)"

fun py_get :: "json \<Rightarrow> pystr \<Rightarrow> json \<Rightarrow> py_error + json" where
  "py_get (JObj kvs) k d = Inr (dict_get kvs k d)"
| "py_get JNull k d = Inl AttributeError"
| "py_get (JBool b) k d = Inl AttributeError"
| "py_get (JInt i) k d = Inl AttributeError"
| "py_get (JStr s) k d = Inl AttributeError"
| "py_get (JArr xs) k d = Inl AttributeError"

text \<open>
  \<^verbatim>\<open>key in x\<close> for a string key: key membership on a \<^verbatim>\<open>dict\<close>, substring test on
  a \<^verbatim>\<open>str\<close>, element test on a \<^verbatim>\<open>list\<close>, \<^verbatim>\<open>TypeError\<close> on the values that are
  not iterable.
\<close>

fun is_prefix :: "pystr \<Rightarrow> pystr \<Rightarrow> bool" where
  "is_prefix [] s = True"
| "is_prefix (c # cs) [] = False"
| "is_prefix (c # cs) (d # ds) = (c = d \<and> is_prefix cs ds)"

fun is_substring :: "pystr \<Rightarrow> pystr \<Rightarrow> bool" where
  "is_substring k [] = (k = [])"
| "is_substring k (c # cs) = (is_prefix k (c # cs) \<or> is_substring k cs)"

fun py_in :: "pystr \<Rightarrow> json \<Rightarrow> py_error + bool" where
  "py_in k (JObj kvs) = Inr (k \<in> set (map fst kvs))"
| "py_in k (JStr s) = Inr (is_substring k s)"
| "py_in k (JArr xs) = Inr (JStr k \<in> set xs)"
| "py_in k JNull = Inl TypeError"
| "py_in k (JBool b) = Inl TypeError"
| "py_in k (JInt i) = Inl TypeError"

text \<open>
  \<^verbatim>\<open>x[key]\<close> for a string key: the value on a \<^verbatim>\<open>dict\<close> (\<^verbatim>\<open>KeyError\<close> when the key
  is missing), \<^verbatim>\<open>TypeError\<close> on every other value (a \<^verbatim>\<open>str\<close> and a \<^verbatim>\<open>list\<close> take
  integer indices only).
\<close>

fun py_item :: "json \<Rightarrow> pystr \<Rightarrow> py_error + json" where
  "py_item (JObj kvs) k = (case map_of kvs k of Some v \<Rightarrow> Inr v | None \<Rightarrow> Inl KeyError)"
| "py_item JNull k = Inl TypeError"
| "py_item (JBool b) k = Inl TypeError"
| "py_item (JInt i) k = Inl TypeError"
| "py_item (JStr s) k = Inl TypeError"
| "py_item (JArr xs) k = Inl TypeError"

text \<open>
  \<^verbatim>\<open>xs[:n]\<close> for an integer \<open>n\<close>: the first \<open>n\<close> items, and for a negative \<open>n\<close>
  all but the last \<open>-n\<close>.
\<close>

definition slice_to :: "'a list \<Rightarrow> int \<Rightarrow> 'a list" where
  "slice_to xs n = (if n < 0 then take (nat (int (length xs) + n)) xs else take (nat n) xs)"

text \<open>
  \<^verbatim>\<open>x[:8]\<close>: a \<^verbatim>\<open>str\<close> and a \<^verbatim>\<open>list\<close> can be sliced; \<^verbatim>\<open>None\<close>, \<^verbatim>\<open>bool\<close> and
  \<^verbatim>\<open>int\<close> are not subscriptable and a \<^verbatim>\<open>dict\<close> rejects the slice as a key (with
  \<^verbatim>\<open>TypeError\<close> up to Python 3.11 and \<^verbatim>\<open>KeyError\<close> from 3.12 on; the model records
  the former).
\<close>

fun py_slice :: "json \<Rightarrow> int \<Rightarrow> py_error + json" where
  "py_slice (JStr s) n = Inr (JStr (slice_to s n))"
| "py_slice (JArr xs) n = Inr (JArr (slice_to xs n))"
| "py_slice JNull n = Inl TypeError"
| "py_slice (JBool b) n = Inl TypeError"
| "py_slice (JInt i) n = Inl TypeError"
| "py_slice (JObj kvs) n = Inl TypeError"

text \<open>
  \<^verbatim>\<open>a - b\<close>: defined on \<^verbatim>\<open>int\<close> (and on \<^verbatim>\<open>bool\<close>, a subclass of \<^verbatim>\<open>int\<close>);
  every other combination of decoded values raises \<^verbatim>\<open>TypeError\<close>.
\<close>

fun as_int :: "json \<Rightarrow> int option" where
  "as_int (JInt i) = Some i"
| "as_int (JBool b) = Some (if b then 1 else 0)"
| "as_int JNull = None"
| "as_int (JStr s) = None"
| "as_int (JArr xs) = None"
| "as_int (JObj kvs) = None"

definition py_sub :: "json \<Rightarrow> json \<Rightarrow> py_error + int" where
  "py_sub a b =
     (case as_int a of
        None \<Rightarrow> Inl TypeError
      | Some x \<Rightarrow> (case as_int b of None \<Rightarrow> Inl TypeError | Some y \<Rightarrow> Inr (x - y)))"

section \<open>String built-ins\<close>

text \<open>\<^verbatim>\<open>sep.join(xs)\<close>.\<close>

fun join :: "pystr \<Rightarrow> pystr list \<Rightarrow> pystr" where
  "join sep [] = []"
| "join sep [x] = x"
| "join sep (x # y # ys) = x @ sep @ join sep (y # ys)"

text \<open>\<^verbatim>\<open>s.split("\n")\<close>: the pieces between line feeds (code point 10); never empty.\<close>

fun split_nl :: "pystr \<Rightarrow> pystr list" where
  "split_nl [] = [[]]"
| "split_nl (c # cs) =
     (if c = 10 then [] # split_nl cs
      else (case split_nl cs of [] \<Rightarrow> [[c]] | l # ls \<Rightarrow> (c # l) # ls))"

text \<open>
  \<^verbatim>\<open>s.strip()\<close> removes leading and trailing whitespace, which for Python is the
  following set of code points.
\<close>

definition isspace :: "nat \<Rightarrow> bool" where
  "isspace c \<longleftrightarrow>
     (9 \<le> c \<and> c \<le> 13) \<or> (28 \<le> c \<and> c \<le> 32) \<or> c = 133 \<or> c = 160 \<or> c = 5760
     \<or> (8192 \<le> c \<and> c \<le> 8202) \<or> c = 8232 \<or> c = 8233 \<or> c = 8239 \<or> c = 8287 \<or> c = 12288"

definition strip :: "pystr \<Rightarrow> pystr" where
  "strip s = rev (dropWhile isspace (rev (dropWhile isspace s)))"

text \<open>\<^verbatim>\<open>s.replace(a, b)\<close> for one-character \<open>a\<close> and \<open>b\<close>.\<close>

definition replace_char :: "nat \<Rightarrow> nat \<Rightarrow> pystr \<Rightarrow> pystr" where
  "replace_char a b s = map (\<lambda>c. if c = a then b else c) s"

text \<open>
  \<^verbatim>\<open>s.title()\<close>: a cased character that follows an uncased one is put in title case,
  one that follows a cased one in lower case. The case mapping is that of the ASCII
  letters; the other code points are left unchanged and count as uncased (Python
  consults the Unicode database for them).
\<close>

definition is_cased :: "nat \<Rightarrow> bool" where
  "is_cased c \<longleftrightarrow> (65 \<le> c \<and> c \<le> 90) \<or> (97 \<le> c \<and> c \<le> 122)"

definition to_upper :: "nat \<Rightarrow> nat" where
  "to_upper c = (if 97 \<le> c \<and> c \<le> 122 then c - 32 else c)"

definition to_lower :: "nat \<Rightarrow> nat" where
  "to_lower c = (if 65 \<le> c \<and> c \<le> 90 then c + 32 else c)"

fun title_from :: "bool \<Rightarrow> pystr \<Rightarrow> pystr" where
  "title_from previous_is_cased [] = []"
| "title_from previous_is_cased (c # cs) =
     (if previous_is_cased then to_lower c else to_upper c) # title_from (is_cased c) cs"

definition title :: "pystr \<Rightarrow> pystr" where
  "title s = title_from False s"

section \<open>Stringification\<close>

text \<open>Decimal digits of a natural number and \<^verbatim>\<open>str\<close> of an \<^verbatim>\<open>int\<close>.\<close>

fun dec :: "nat \<Rightarrow> pystr" where
  "dec n = (if n < 10 then [48 + n] else dec (n div 10) @ [48 + n mod 10])"

declare dec.simps [simp del]

definition str_int :: "int \<Rightarrow> pystr" where
  "str_int i = (if i < 0 then 45 # dec (nat (- i)) else dec (nat i))"

text \<open>
  \<^verbatim>\<open>repr\<close> of a \<^verbatim>\<open>str\<close>: single quotes, unless the string has a single quote and
  no double quote; the quote and the backslash are escaped, tab, line feed and
  carriage return are written \<^verbatim>\<open>\t\<close>, \<^verbatim>\<open>\n\<close>, \<^verbatim>\<open>\r\<close>, and the other non-printable
  code points in hexadecimal. Printability is exact up to U+00FF; above it every code
  point is taken as printable (Python consults the Unicode database).
\<close>

definition hexdigit :: "nat \<Rightarrow> nat" where
  "hexdigit d = (if d < 10 then 48 + d else 87 + d)"

fun hex_pad :: "nat \<Rightarrow> nat \<Rightarrow> pystr" where
  "hex_pad 0 n = []"
| "hex_pad (Suc w) n = hex_pad w (n div 16) @ [hexdigit (n mod 16)]"

definition isprintable :: "nat \<Rightarrow> bool" where
  "isprintable c \<longleftrightarrow> (32 \<le> c \<and> c < 127) \<or> (161 \<le> c \<and> c \<noteq> 173)"

definition repr_char :: "nat \<Rightarrow> nat \<Rightarrow> pystr" where
  "repr_char quote c =
     (if c = quote \<or> c = 92 then [92, c]
      else if c = 9 then [92, 116]
      else if c = 10 then [92, 110]
      else if c = 13 then [92, 114]
      else if isprintable c then [c]
      else if c \<le> 255 then [92, 120] @ hex_pad 2 c
      else if c \<le> 65535 then [92, 117] @ hex_pad 4 c
      else [92, 85] @ hex_pad 8 c)"

definition repr_str :: "pystr \<Rightarrow> pystr" where
  "repr_str s =
     (let quote = (if 39 \<in> set s \<and> 34 \<notin> set s then 34 else 39)
      in [quote] @ concat (map (repr_char quote) s) @ [quote])"

text \<open>\<^verbatim>\<open>repr\<close> of a decoded value, which is what \<^verbatim>\<open>str\<close> gives inside a container.\<close>

fun py_repr :: "json \<Rightarrow> pystr" where
  "py_repr JNull = py ''None''"
| "py_repr (JBool b) = (if b then py ''True'' else py ''False'')"
| "py_repr (JInt i) = str_int i"
| "py_repr (JStr s) = repr_str s"
| "py_repr (JArr xs) = py ''['' @ join (py '', '') (map py_repr xs) @ py '']''"
| "py_repr (JObj kvs) =
     py ''{'' @ join (py '', '') (map (\<lambda>(k, v). repr_str k @ py '': '' @ py_repr v) kvs) @ py ''}''"

text \<open>
  \<^verbatim>\<open>str(x)\<close>, which is also what an f-string field \<^verbatim>\<open>{x}\<close> inserts: a \<^verbatim>\<open>str\<close> is
  itself, every other value its \<^verbatim>\<open>repr\<close>.
\<close>

fun py_str :: "json \<Rightarrow> pystr" where
  "py_str (JStr s) = s"
| "py_str JNull = py_repr JNull"
| "py_str (JBool b) = py_repr (JBool b)"
| "py_str (JInt i) = py_repr (JInt i)"
| "py_str (JArr xs) = py_repr (JArr xs)"
| "py_str (JObj kvs) = py_repr (JObj kvs)"

text \<open>
  The format specification \<^verbatim>\<open>:.0f\<close> applied to an \<^verbatim>\<open>int\<close> converts it to a
  double first: exact up to 53 significant bits, rounded half-to-even beyond, and
  \<^verbatim>\<open>OverflowError\<close> when the rounded value does not fit. The resulting double is an
  integer, and its digits are printed in full.
\<close>

fun bit_length :: "nat \<Rightarrow> nat" where
  "bit_length n = (if n = 0 then 0 else Suc (bit_length (n div 2)))"

declare bit_length.simps [simp del]

definition round_to_double :: "nat \<Rightarrow> nat" where
  "round_to_double n =
     (let k = bit_length n in
      if k \<le> 53 then n
      else
        let sh = k - 53; q = n div 2 ^ sh; r = n mod 2 ^ sh; half = 2 ^ (sh - 1)
        in (if half < r \<or> (r = half \<and> odd q) then q + 1 else q) * 2 ^ sh)"

definition int_to_float :: "int \<Rightarrow> py_error + int" where
  "int_to_float d =
     (let m = round_to_double (nat \<bar>d\<bar>)
      in if 2 ^ 1024 \<le> m then Inl OverflowError
         else Inr (if d < 0 then - int m else int m))"

definition format_0f :: "int \<Rightarrow> py_error + pystr" where
  "format_0f d = (case int_to_float d of Inl e \<Rightarrow> Inl e | Inr v \<Rightarrow> Inr (str_int v))"

section \<open>The console\<close>

text \<open>
  The table \<^verbatim>\<open>colors\<close> of the source names nine styles of the terminal library;
  \<^verbatim>\<open>colors["bright"] + colors["green"]\<close> combines two of them. Writing to the
  terminal is the library's work: the model records each call
  \<^verbatim>\<open>console.print(text, style=..., end=..., markup=...)\<close> with its arguments, in
  order, and takes the call itself as one that returns. The defaults of the library are
  no style, \<^verbatim>\<open>end="\n"\<close> and \<^verbatim>\<open>markup=True\<close>.
\<close>

datatype style =
    Reset | Bright | Dim | Red | Green | Yellow | Blue | Magenta | Cyan
  | Plus style style

datatype call =
  Print (call_text: pystr) (call_style: "style option") (call_end: pystr) (call_markup: bool)

text \<open>
  \<^verbatim>\<open>console.print()\<close>, and the indent \<^verbatim>\<open>console.print(..., end="")\<close> of two
  spaces, the glyph U+23BF and two spaces.
\<close>

definition newline :: call where
  "newline = Print [] None [10] True"

definition indent :: call where
  "indent = Print [32, 32, 9151, 32, 32] None [] True"

text \<open>
  What a run of the printing code leaves behind: the calls made, and whether it
  returned or raised. The calls made before an exception stay on the terminal.
\<close>

datatype outcome =
    Returned "call list"
  | Raised py_error "call list"

fun prepend :: "call list \<Rightarrow> outcome \<Rightarrow> outcome" where
  "prepend cs (Returned ds) = Returned (cs @ ds)"
| "prepend cs (Raised e ds) = Raised e (cs @ ds)"

fun attempt :: "py_error + 'a \<Rightarrow> ('a \<Rightarrow> outcome) \<Rightarrow> outcome" where
  "attempt (Inl e) f = Raised e []"
| "attempt (Inr x) f = f x"

section \<open>The style table and the truncation primitive\<close>

text \<open>
  \<^verbatim>\<open>get_event_style\<close>: a dictionary lookup with a default. The icons are given by
  their code points. The argument is whatever the event has under \<^verbatim>\<open>type\<close>: a
  \<^verbatim>\<open>list\<close> or a \<^verbatim>\<open>dict\<close> cannot be hashed and the lookup raises \<^verbatim>\<open>TypeError\<close>.
\<close>

definition event_styles :: "(pystr \<times> pystr \<times> style) list" where
  "event_styles =
     [(py ''tool_use'', [128295], Cyan),
      (py ''step_start'', [9654, 65039], Blue),
      (py ''step_finish'', [9989], Green),
      (py ''text'', [128172], Reset),
      (py ''error'', [10060], Red),
      (py ''thinking'', [129300], Magenta),
      (py ''session_start'', [128640], Plus Bright Green),
      (py ''session_end'', [127937], Plus Bright Blue)]"

fun get_event_style :: "json \<Rightarrow> py_error + pystr \<times> style" where
  "get_event_style (JStr event_type) =
     Inr (case map_of event_styles event_type of Some r \<Rightarrow> r | None \<Rightarrow> ([9210], Dim))"
| "get_event_style (JArr xs) = Inl TypeError"
| "get_event_style (JObj kvs) = Inl TypeError"
| "get_event_style JNull = Inr ([9210], Dim)"
| "get_event_style (JBool b) = Inr ([9210], Dim)"
| "get_event_style (JInt i) = Inr ([9210], Dim)"

definition safe_str :: "json \<Rightarrow> int option \<Rightarrow> pystr" where
  "safe_str value max_len =
     (let result = py_str value in
      case max_len of
        None \<Rightarrow> result
      | Some n \<Rightarrow> if n < int (length result) then slice_to result n @ py ''...'' else result)"

section \<open>Rendering one event\<close>

text \<open>
  The debug prefix (the block under \<^verbatim>\<open>if debug:\<close>): time stamp and the first eight
  items of the session id.
\<close>

definition print_debug_info :: "pystr list \<Rightarrow> call list" where
  "print_debug_info debug_info =
     (if debug_info \<noteq> [] then [Print (join (py '' '') debug_info) (Some Dim) (py '' '') True]
      else [])"

definition debug_prefix :: "bool \<Rightarrow> json \<Rightarrow> json \<Rightarrow> py_error + call list" where
  "debug_prefix debug timestamp session_id =
     (if debug then
        (let info = (if truthy timestamp then [py ''['' @ py_str timestamp @ py '']''] else [])
         in if truthy session_id then
              (case py_slice session_id 8 of
                 Inl e \<Rightarrow> Inl e
               | Inr s \<Rightarrow>
                   Inr (print_debug_info (info @ [py ''(session: '' @ py_str s @ py ''...)''])))
            else Inr (print_debug_info info))
      else Inr [])"

text \<open>
  The branch for \<^verbatim>\<open>tool_use\<close>. The loop over the priority keys stops at the first
  key found in the input; the indent and the key are printed before the value is
  looked up.
\<close>

definition priority_keys :: "pystr list" where
  "priority_keys =
     [py ''path'', py ''file_path'', py ''command'', py ''query'', py ''pattern'', py ''url'']"

fun show_key_argument :: "pystr list \<Rightarrow> json \<Rightarrow> outcome" where
  "show_key_argument [] tool_input = Returned []"
| "show_key_argument (key # keys) tool_input =
     attempt (py_in key tool_input) (\<lambda>found.
       if found then
         prepend [indent, Print (key @ py '': '') (Some Dim) [] True]
           (attempt (py_item tool_input key) (\<lambda>v.
              Returned [Print (safe_str v (Some 80)) (Some Green) [10] False]))
       else show_key_argument keys tool_input)"

definition tool_use_body :: "json \<Rightarrow> outcome" where
  "tool_use_body part =
     attempt (py_get part (py ''tool'') (JStr (py ''unknown''))) (\<lambda>tool_name.
     attempt (py_get part (py ''state'') (JObj [])) (\<lambda>tool_state.
     attempt (py_get tool_state (py ''title'') (JStr [])) (\<lambda>tool_title.
     attempt (py_get tool_state (py ''input'') (JObj [])) (\<lambda>tool_input.
     attempt (py_get tool_state (py ''status'') (JStr [])) (\<lambda>tool_status.
       prepend
         ([Print (py '' ('' @ py_str tool_name @ py '')'') (Some Cyan) [] True]
          @ (if truthy tool_status then
               [Print (py '' ['' @ py_str tool_status @ py '']'')
                  (Some (if tool_status = JStr (py ''completed'') then Green else Yellow)) [] True]
             else [])
          @ [newline]
          @ (if truthy tool_title then
               [indent, Print (py ''Title: '' @ py_str tool_title) (Some Dim) [10] True]
             else []))
         (if truthy tool_input then show_key_argument priority_keys tool_input
          else Returned []))))))"

text \<open>The branches for \<^verbatim>\<open>step_start\<close> and \<^verbatim>\<open>step_finish\<close>.\<close>

definition step_start_body :: "json \<Rightarrow> outcome" where
  "step_start_body part =
     attempt (py_get part (py ''type'') (JStr [])) (\<lambda>step_type.
       Returned
         (if truthy step_type then [Print (py '' - '' @ py_str step_type) (Some Blue) [10] True]
          else [newline]))"

definition step_duration :: "json \<Rightarrow> json \<Rightarrow> py_error + int option" where
  "step_duration start_time end_time =
     (if truthy start_time \<and> truthy end_time then
        (case py_sub end_time start_time of Inl e \<Rightarrow> Inl e | Inr d \<Rightarrow> Inr (Some d))
      else Inr None)"

definition step_finish_body :: "json \<Rightarrow> outcome" where
  "step_finish_body part =
     attempt (py_get part (py ''type'') (JStr [])) (\<lambda>step_type.
     attempt (py_get part (py ''time'') (JObj [])) (\<lambda>time_info.
     attempt (py_get time_info (py ''start'') JNull) (\<lambda>start_time.
     attempt (py_get time_info (py ''end'') JNull) (\<lambda>end_time.
     attempt (step_duration start_time end_time) (\<lambda>duration.
       prepend
         (if truthy step_type then [Print (py '' - '' @ py_str step_type) (Some Green) [] True]
          else [])
         (case duration of
            None \<Rightarrow> Returned [newline]
          | Some d \<Rightarrow>
              if d \<noteq> 0 then
                attempt (format_0f d) (\<lambda>s.
                  Returned [Print (py '' ('' @ s @ py ''ms)'') (Some Dim) [] True, newline])
              else Returned [newline]))))))"

text \<open>
  The branches for \<^verbatim>\<open>text\<close> and \<^verbatim>\<open>thinking\<close>. The loops run over
  \<^verbatim>\<open>enumerate(lines[:lines_to_show])\<close>; \<open>text_lines\<close> carries the index.
\<close>

fun py_split_nl :: "json \<Rightarrow> py_error + pystr list" where
  "py_split_nl (JStr s) = Inr (split_nl s)"
| "py_split_nl JNull = Inl AttributeError"
| "py_split_nl (JBool b) = Inl AttributeError"
| "py_split_nl (JInt i) = Inl AttributeError"
| "py_split_nl (JArr xs) = Inl AttributeError"
| "py_split_nl (JObj kvs) = Inl AttributeError"

definition more_lines :: "nat \<Rightarrow> call list" where
  "more_lines n =
     [indent, Print (py ''... ('' @ dec n @ py '' more lines)'') (Some Dim) [10] True]"

fun text_lines :: "nat \<Rightarrow> pystr list \<Rightarrow> call list" where
  "text_lines i [] = []"
| "text_lines i (line # lines) =
     (if strip line \<noteq> [] \<or> i = 0 then
        [indent, Print line (Some (if i = 0 then Reset else Dim)) [10] False]
      else [])
     @ text_lines (Suc i) lines"

definition text_body :: "json \<Rightarrow> outcome" where
  "text_body part =
     attempt (py_get part (py ''text'') (JStr [])) (\<lambda>text_content.
       if truthy text_content then
         prepend [newline]
           (attempt (py_split_nl text_content) (\<lambda>lines.
              let lines_to_show = min 5 (length lines) in
              Returned
                (text_lines 0 (take lines_to_show lines)
                 @ (if lines_to_show < length lines then more_lines (length lines - lines_to_show)
                    else []))))
       else Returned [newline])"

fun thinking_lines :: "pystr list \<Rightarrow> call list" where
  "thinking_lines [] = []"
| "thinking_lines (line # lines) =
     (if strip line \<noteq> [] then [indent, Print line (Some Magenta) [10] False] else [])
     @ thinking_lines lines"

definition thinking_body :: "json \<Rightarrow> outcome" where
  "thinking_body part =
     attempt (py_get part (py ''text'') (JStr [])) (\<lambda>thinking_content.
       if truthy thinking_content then
         prepend [newline]
           (attempt (py_split_nl thinking_content) (\<lambda>lines.
              let lines_to_show = min 3 (length lines) in
              Returned
                (thinking_lines (take lines_to_show lines)
                 @ (if lines_to_show < length lines then more_lines (length lines - lines_to_show)
                    else []))))
       else Returned [newline])"

text \<open>The branch for \<^verbatim>\<open>error\<close> and the branch for every other kind.\<close>

definition error_body :: "json \<Rightarrow> outcome" where
  "error_body error_data =
     attempt (py_get error_data (py ''name'') (JStr (py ''Error''))) (\<lambda>error_name.
     attempt (py_get error_data (py ''data'') (JObj [])) (\<lambda>data.
     attempt (py_get data (py ''message'') (JStr (py_str error_data))) (\<lambda>error_msg.
       Returned
         [newline, indent,
          Print (py_str error_name @ py '': '') (Some (Plus Red Bright)) [] True,
          Print (safe_str error_msg (Some 200)) (Some Red) [10] False])))"

definition unknown_body :: "json \<Rightarrow> json \<Rightarrow> outcome" where
  "unknown_body part error_data =
     (let data_to_show = (if truthy part then part else error_data) in
      Returned
        (if truthy data_to_show then
           [newline, indent, Print (safe_str data_to_show (Some 100)) (Some Dim) [10] False]
         else [newline]))"

text \<open>
  The dispatch on the kind, which is a \<^verbatim>\<open>str\<close> at this point, and the blank line
  that closes every event.
\<close>

definition event_body :: "pystr \<Rightarrow> json \<Rightarrow> json \<Rightarrow> outcome" where
  "event_body event_type part error_data =
     (if event_type = py ''tool_use'' then tool_use_body part
      else if event_type = py ''step_start'' then step_start_body part
      else if event_type = py ''step_finish'' then step_finish_body part
      else if event_type = py ''text'' then text_body part
      else if event_type = py ''thinking'' then thinking_body part
      else if event_type = py ''error'' then error_body error_data
      else if event_type \<in> set [py ''session_start'', py ''session_end''] then Returned [newline]
      else unknown_body part error_data)"

fun finish :: "outcome \<Rightarrow> outcome" where
  "finish (Returned cs) = Returned (cs @ [newline])"
| "finish (Raised e cs) = Raised e cs"

text \<open>
  The label is \<^verbatim>\<open>event_type.replace("_", " ").title()\<close>, which exists for a
  \<^verbatim>\<open>str\<close> only; the icon has been printed when the attribute lookup fails.
\<close>

fun print_label :: "json \<Rightarrow> style \<Rightarrow> json \<Rightarrow> json \<Rightarrow> outcome" where
  "print_label (JStr event_type) style part error_data =
     prepend [Print (title (replace_char 95 32 event_type)) (Some style) [] True]
       (finish (event_body event_type part error_data))"
| "print_label JNull style part error_data = Raised AttributeError []"
| "print_label (JBool b) style part error_data = Raised AttributeError []"
| "print_label (JInt i) style part error_data = Raised AttributeError []"
| "print_label (JArr xs) style part error_data = Raised AttributeError []"
| "print_label (JObj kvs) style part error_data = Raised AttributeError []"

definition format_opencode_event :: "json \<Rightarrow> bool \<Rightarrow> outcome" where
  "format_opencode_event event debug =
     attempt (py_get event (py ''type'') (JStr (py ''unknown''))) (\<lambda>event_type.
     attempt (py_get event (py ''timestamp'') (JStr [])) (\<lambda>timestamp.
     attempt (py_get event (py ''sessionID'') (JStr [])) (\<lambda>session_id.
     attempt (py_get event (py ''part'') (JObj [])) (\<lambda>part.
     attempt (py_get event (py ''error'') (JObj [])) (\<lambda>error_data.
     attempt (get_event_style event_type) (\<lambda>(icon, style).
     attempt (debug_prefix debug timestamp session_id) (\<lambda>debug_calls.
       prepend (debug_calls @ [Print (icon @ py '' '') None [] True])
         (print_label event_type style part error_data))))))))"

section \<open>The stream\<close>

text \<open>
  \<^verbatim>\<open>process_stream\<close> takes the lines of standard input one by one. The decoder
  \<^verbatim>\<open>json.loads\<close> belongs to the standard library and is a parameter: \<open>None\<close>
  stands for \<^verbatim>\<open>json.JSONDecodeError\<close>, the one exception that the loop catches. An
  exception raised while an event is rendered is not caught and ends the loop.
  The debug flag is \<^verbatim>\<open>"--debug" in sys.argv\<close>.
\<close>

definition parse_error_block :: "pystr \<Rightarrow> call list" where
  "parse_error_block line =
     [Print [9210, 32] None [] True,
      Print (py ''Parse Error'') (Some Red) [10] True,
      Print ([32, 32, 9151, 32, 32] @ slice_to line 80 @ py ''...'') (Some Dim) [10] False,
      newline]"

fun process_lines :: "(pystr \<Rightarrow> json option) \<Rightarrow> bool \<Rightarrow> pystr list \<Rightarrow> outcome" where
  "process_lines loads debug_mode [] = Returned []"
| "process_lines loads debug_mode (raw # rest) =
     (let line = strip raw in
      if line = [] then process_lines loads debug_mode rest
      else
        (case loads line of
           None \<Rightarrow> prepend (parse_error_block line) (process_lines loads debug_mode rest)
         | Some event \<Rightarrow>
             (case format_opencode_event event debug_mode of
                Returned cs \<Rightarrow> prepend cs (process_lines loads debug_mode rest)
              | Raised e cs \<Rightarrow> Raised e cs)))"

definition process_stream :: "(pystr \<Rightarrow> json option) \<Rightarrow> pystr list \<Rightarrow> pystr list \<Rightarrow> outcome" where
  "process_stream loads argv stdin =
     process_lines loads (py ''--debug'' \<in> set argv) stdin"

section \<open>Notions used in the statements\<close>

text \<open>The icon and the style that \<^verbatim>\<open>get_event_style\<close> returns for a kind.\<close>

definition kind_icon :: "pystr \<Rightarrow> pystr" where
  "kind_icon ty = fst (case map_of event_styles ty of Some r \<Rightarrow> r | None \<Rightarrow> ([9210], Dim))"

definition kind_style :: "pystr \<Rightarrow> style" where
  "kind_style ty = snd (case map_of event_styles ty of Some r \<Rightarrow> r | None \<Rightarrow> ([9210], Dim))"







text \<open>
  The typing of an event under which its rendering is shown to return. \<open>field\<close> reads
  a key of a mapping, with a default for an absent key. The conditions follow the
  dispatch: only the fields that the branch of the event's kind uses as a container (with
  \<^verbatim>\<open>.get\<close>, \<^verbatim>\<open>in\<close>, indexing or slicing), splits or subtracts are constrained; a
  field that is only tested for truth and stringified is free.
\<close>

fun is_dict :: "json \<Rightarrow> bool" where
  "is_dict (JObj kvs) = True"
| "is_dict JNull = False"
| "is_dict (JBool b) = False"
| "is_dict (JInt i) = False"
| "is_dict (JStr s) = False"
| "is_dict (JArr xs) = False"

fun is_str :: "json \<Rightarrow> bool" where
  "is_str (JStr s) = True"
| "is_str JNull = False"
| "is_str (JBool b) = False"
| "is_str (JInt i) = False"
| "is_str (JArr xs) = False"
| "is_str (JObj kvs) = False"

fun sliceable :: "json \<Rightarrow> bool" where
  "sliceable (JStr s) = True"
| "sliceable (JArr xs) = True"
| "sliceable JNull = False"
| "sliceable (JBool b) = False"
| "sliceable (JInt i) = False"
| "sliceable (JObj kvs) = False"

fun field :: "json \<Rightarrow> pystr \<Rightarrow> json \<Rightarrow> json" where
  "field (JObj kvs) k d = dict_get kvs k d"
| "field JNull k d = d"
| "field (JBool b) k d = d"
| "field (JInt i) k d = d"
| "field (JStr s) k d = d"
| "field (JArr xs) k d = d"

definition small_difference :: "json \<Rightarrow> json \<Rightarrow> bool" where
  "small_difference a b \<longleftrightarrow>
     (case as_int a of
        None \<Rightarrow> False
      | Some x \<Rightarrow> (case as_int b of None \<Rightarrow> False | Some y \<Rightarrow> \<bar>x - y\<bar> < 2 ^ 1023))"

definition well_typed :: "json \<Rightarrow> bool \<Rightarrow> bool" where
  "well_typed event debug \<longleftrightarrow>
     (let event_type = field event (py ''type'') (JStr (py ''unknown''));
          session_id = field event (py ''sessionID'') (JStr []);
          part = field event (py ''part'') (JObj []);
          error_data = field event (py ''error'') (JObj []);
          tool_state = field part (py ''state'') (JObj []);
          tool_input = field tool_state (py ''input'') (JObj []);
          time_info = field part (py ''time'') (JObj []);
          start_time = field time_info (py ''start'') JNull;
          end_time = field time_info (py ''end'') JNull;
          text_content = field part (py ''text'') (JStr [])
      in is_dict event \<and> is_str event_type
         \<and> (debug \<and> truthy session_id \<longrightarrow> sliceable session_id)
         \<and> (event_type = JStr (py ''tool_use'') \<longrightarrow>
              is_dict part \<and> is_dict tool_state \<and> (truthy tool_input \<longrightarrow> is_dict tool_input))
         \<and> (event_type = JStr (py ''step_start'') \<longrightarrow> is_dict part)
         \<and> (event_type = JStr (py ''step_finish'') \<longrightarrow>
              is_dict part \<and> is_dict time_info
              \<and> (truthy start_time \<and> truthy end_time \<longrightarrow> small_difference end_time start_time))
         \<and> (event_type = JStr (py ''text'') \<or> event_type = JStr (py ''thinking'') \<longrightarrow>
              is_dict part \<and> (truthy text_content \<longrightarrow> is_str text_content))
         \<and> (event_type = JStr (py ''error'') \<longrightarrow>
              is_dict error_data \<and> is_dict (field error_data (py ''data'') (JObj []))))"

text \<open>The eight kinds that have a branch of their own in the dispatch.\<close>

definition known_kinds :: "pystr list" where
  "known_kinds =
     [py ''tool_use'', py ''step_start'', py ''step_finish'', py ''text'', py ''thinking'',
      py ''error'', py ''session_start'', py ''session_end'']"

section \<open>Basic facts\<close>

lemma prepend_Nil: "prepend [] r = r"
  by (cases r) simp_all

lemma prepend_prepend: "prepend cs (prepend ds r) = prepend (cs @ ds) r"
  by (cases r) simp_all

lemma slice_to_nonneg: "0 \<le> n \<Longrightarrow> slice_to xs n = take (nat n) xs"
  by (simp add: slice_to_def)

lemma safe_str_limit:
  "0 \<le> n \<Longrightarrow> safe_str v (Some n) =
     (if nat n < length (py_str v) then take (nat n) (py_str v) @ py ''...'' else py_str v)"
  by (auto simp: safe_str_def slice_to_nonneg Let_def)

section \<open>The truncation primitive\<close>

text \<open>
  Claim C4. \<^verbatim>\<open>safe_str\<close> with a limit \<open>n\<close> (a number of characters, \<open>0 \<le> n\<close>):
  the result has at most \<open>n + 3\<close> characters; a string of at most \<open>n\<close> characters is
  returned as it is; truncating twice is truncating once; and a value that is not a
  string is stringified first and then treated like that string. The function has no
  error result: it is total on every decoded value.
\<close>

theorem safe_str_truncation:
  assumes "0 \<le> n"
  shows "length (safe_str (JStr s) (Some n)) \<le> nat n + 3
    \<and> (length s \<le> nat n \<longrightarrow> safe_str (JStr s) (Some n) = s)
    \<and> safe_str (JStr (safe_str (JStr s) (Some n))) (Some n) = safe_str (JStr s) (Some n)
    \<and> safe_str v (Some n) = safe_str (JStr (py_str v)) (Some n)"
  using assms by (simp add: safe_str_limit)

theorem safe_str_truncation_witness:
  "length (safe_str (JStr (py ''abcdefgh'')) (Some 5)) \<le> nat 5 + 3
    \<and> safe_str (JStr (py ''abcde'')) (Some 5) = py ''abcde''
    \<and> safe_str (JStr (py ''abcdefgh'')) (Some 5) = py ''abcde...''
    \<and> safe_str (JStr (py ''abcde...'')) (Some 5) = py ''abcde...''
    \<and> safe_str (JInt 1234567) (Some 5) = py ''12345...''"
  using safe_str_truncation [of 5 "py ''abcdefgh''" "JInt 1234567"]
  by (simp add: safe_str_limit str_int_def dec.simps)

section \<open>Lines that do not decode\<close>

lemma process_lines_invalid:
  assumes "strip raw \<noteq> []" and "loads (strip raw) = None"
  shows "process_lines loads debug_mode (raw # rest) =
           prepend (parse_error_block (strip raw)) (process_lines loads debug_mode rest)"
  using assms by (simp add: Let_def)

lemma parse_error_block_take:
  "parse_error_block line =
     [Print [9210, 32] None [] True,
      Print (py ''Parse Error'') (Some Red) [10] True,
      Print ([32, 32, 9151, 32, 32] @ take 80 line @ py ''...'') (Some Dim) [10] False,
      newline]"
  by (simp add: parse_error_block_def slice_to_def)

text \<open>
  Claim C3. A run of input lines that do not decode (\<^verbatim>\<open>json.loads\<close> raises
  \<^verbatim>\<open>JSONDecodeError\<close> on each stripped line) does not raise: each line prints the
  icon, the header \<^verbatim>\<open>Parse Error\<close>, one indented line with the first 80 characters
  of the stripped line followed by \<^verbatim>\<open>...\<close>, and a blank line; the stream then goes on
  with the lines that follow, exactly as if the bad lines had not been there.
\<close>

theorem invalid_lines_are_reported:
  assumes "\<forall>raw \<in> set bad. strip raw \<noteq> [] \<and> loads (strip raw) = None"
  shows "process_stream loads argv (bad @ rest) =
     prepend
       (concat (map (\<lambda>raw.
          [Print [9210, 32] None [] True,
           Print (py ''Parse Error'') (Some Red) [10] True,
           Print ([32, 32, 9151, 32, 32] @ take 80 (strip raw) @ py ''...'') (Some Dim) [10] False,
           newline]) bad))
       (process_stream loads argv rest)"
  using assms unfolding process_stream_def
proof (induction bad)
  case Nil
  show ?case by (simp add: prepend_Nil)
next
  case (Cons raw bad)
  then show ?case
    by (simp add: process_lines_invalid parse_error_block_take prepend_prepend
          del: process_lines.simps)
qed

theorem invalid_lines_are_reported_witness:
  "process_stream (\<lambda>line. None) [] [py ''  not json at all '', py ''{''] =
     Returned
       [Print [9210, 32] None [] True,
        Print (py ''Parse Error'') (Some Red) [10] True,
        Print ([32, 32, 9151, 32, 32] @ py ''not json at all...'') (Some Dim) [10] False,
        newline,
        Print [9210, 32] None [] True,
        Print (py ''Parse Error'') (Some Red) [10] True,
        Print ([32, 32, 9151, 32, 32] @ py ''{...'') (Some Dim) [10] False,
        newline]"
  using invalid_lines_are_reported
          [of "[py ''  not json at all '', py ''{'']" "\<lambda>line. None" "[]" "[]"]
  by (simp add: strip_def isspace_def process_stream_def)

section \<open>The header of an event\<close>

lemma format_event_of_kind:
  assumes "dict_get ev (py ''type'') (JStr (py ''unknown'')) = JStr ty"
  shows "format_opencode_event (JObj ev) debug =
     attempt (debug_prefix debug (dict_get ev (py ''timestamp'') (JStr []))
                (dict_get ev (py ''sessionID'') (JStr [])))
       (\<lambda>dbg. prepend
          (dbg @ [Print (kind_icon ty @ py '' '') None [] True,
                  Print (title (replace_char 95 32 ty)) (Some (kind_style ty)) [] True])
          (finish (event_body ty (dict_get ev (py ''part'') (JObj []))
                     (dict_get ev (py ''error'') (JObj [])))))"
  using assms
  by (simp add: format_opencode_event_def kind_icon_def kind_style_def prepend_prepend
        split: prod.splits option.splits)

section \<open>Tool events\<close>

lemma kind_tool_use:
  "kind_icon (py ''tool_use'') = [128295]" "kind_style (py ''tool_use'') = Cyan"
  "title (replace_char 95 32 (py ''tool_use'')) = py ''Tool Use''"
  "event_body (py ''tool_use'') part err = tool_use_body part"
  by (simp_all add: kind_icon_def kind_style_def event_styles_def event_body_def
        title_def replace_char_def is_cased_def to_upper_def to_lower_def)

lemma py_in_dict: "py_in key (JObj inp) = Inr (map_of inp key \<noteq> None)"
  by (simp add: map_of_eq_None_iff)

lemma show_key_argument_dict:
  "show_key_argument keys (JObj inp) =
     Returned
       (case find (\<lambda>key. map_of inp key \<noteq> None) keys of
          None \<Rightarrow> []
        | Some key \<Rightarrow>
            [indent, Print (key @ py '': '') (Some Dim) [] True,
             Print (safe_str (the (map_of inp key)) (Some 80)) (Some Green) [10] False])"
proof (induction keys)
  case Nil
  show ?case by simp
next
  case (Cons key keys)
  show ?case
  proof (cases "map_of inp key")
    case None
    with Cons show ?thesis by (simp add: py_in_dict del: py_in.simps)
  next
    case (Some v)
    then show ?thesis by (simp add: py_in_dict del: py_in.simps)
  qed
qed

lemma find_False: "find (\<lambda>key. False) keys = None"
  by (induction keys) simp_all

lemma tool_use_body_dict:
  assumes "dict_get part (py ''state'') (JObj []) = JObj state"
    and "dict_get state (py ''input'') (JObj []) = JObj inp"
  shows "tool_use_body (JObj part) =
     Returned
       ([Print (py '' ('' @ py_str (dict_get part (py ''tool'') (JStr (py ''unknown''))) @ py '')'')
           (Some Cyan) [] True]
        @ (if truthy (dict_get state (py ''status'') (JStr [])) then
             [Print (py '' ['' @ py_str (dict_get state (py ''status'') (JStr [])) @ py '']'')
                (Some (if dict_get state (py ''status'') (JStr []) = JStr (py ''completed'')
                       then Green else Yellow)) [] True]
           else [])
        @ [newline]
        @ (if truthy (dict_get state (py ''title'') (JStr [])) then
             [indent,
              Print (py ''Title: '' @ py_str (dict_get state (py ''title'') (JStr [])))
                (Some Dim) [10] True]
           else [])
        @ (case find (\<lambda>key. map_of inp key \<noteq> None) priority_keys of
             None \<Rightarrow> []
           | Some key \<Rightarrow>
               [indent, Print (key @ py '': '') (Some Dim) [] True,
                Print (safe_str (the (map_of inp key)) (Some 80)) (Some Green) [10] False]))"
proof (cases "inp = []")
  case True
  with assms show ?thesis
    by (simp add: tool_use_body_def find_False)
next
  case False
  with assms show ?thesis
    by (simp add: tool_use_body_def show_key_argument_dict)
qed

text \<open>
  Claim C2. A \<^verbatim>\<open>tool_use\<close> event whose \<^verbatim>\<open>part\<close>, \<^verbatim>\<open>part.state\<close> and
  \<^verbatim>\<open>part.state.input\<close> are mappings (an absent one counts as the empty mapping)
  renders as: the debug prefix, the icon, the label \<^verbatim>\<open>Tool Use\<close>, the tool name, the
  status when there is one, the end of the header line, the title line when there is a
  title, then at most one argument line, then the closing blank line. The argument line
  belongs to the first key of \<^verbatim>\<open>path\<close>, \<^verbatim>\<open>file_path\<close>, \<^verbatim>\<open>command\<close>,
  \<^verbatim>\<open>query\<close>, \<^verbatim>\<open>pattern\<close>, \<^verbatim>\<open>url\<close> that the input has; it depends on the input
  only through the mapping \<open>map_of inp\<close>, not through the order of its entries; its
  value is stringified and cut to 80 characters plus \<^verbatim>\<open>...\<close> when longer. When the
  input has none of the six keys there is no argument line. (Only an ill-typed session
  id under \<^verbatim>\<open>--debug\<close> makes \<open>debug_prefix\<close> raise before anything is printed.)
\<close>

theorem tool_use_first_priority_key:
  assumes "dict_get ev (py ''type'') (JStr (py ''unknown'')) = JStr (py ''tool_use'')"
    and "dict_get ev (py ''part'') (JObj []) = JObj part"
    and "dict_get part (py ''state'') (JObj []) = JObj state"
    and "dict_get state (py ''input'') (JObj []) = JObj inp"
  shows "format_opencode_event (JObj ev) debug =
     attempt (debug_prefix debug (dict_get ev (py ''timestamp'') (JStr []))
                (dict_get ev (py ''sessionID'') (JStr [])))
       (\<lambda>dbg. Returned
          (dbg
           @ [Print ([128295] @ py '' '') None [] True,
              Print (py ''Tool Use'') (Some Cyan) [] True,
              Print (py '' ('' @ py_str (dict_get part (py ''tool'') (JStr (py ''unknown'')))
                       @ py '')'') (Some Cyan) [] True]
           @ (if truthy (dict_get state (py ''status'') (JStr [])) then
                [Print (py '' ['' @ py_str (dict_get state (py ''status'') (JStr [])) @ py '']'')
                   (Some (if dict_get state (py ''status'') (JStr []) = JStr (py ''completed'')
                          then Green else Yellow)) [] True]
              else [])
           @ [newline]
           @ (if truthy (dict_get state (py ''title'') (JStr [])) then
                [indent,
                 Print (py ''Title: '' @ py_str (dict_get state (py ''title'') (JStr [])))
                   (Some Dim) [10] True]
              else [])
           @ (case find (\<lambda>key. map_of inp key \<noteq> None)
                     [py ''path'', py ''file_path'', py ''command'', py ''query'',
                      py ''pattern'', py ''url''] of
                None \<Rightarrow> []
              | Some key \<Rightarrow>
                  [indent, Print (key @ py '': '') (Some Dim) [] True,
                   Print (if 80 < length (py_str (the (map_of inp key)))
                          then take 80 (py_str (the (map_of inp key))) @ py ''...''
                          else py_str (the (map_of inp key))) (Some Green) [10] False])
           @ [newline]))"
proof -
  have keys: "priority_keys = [py ''path'', py ''file_path'', py ''command'', py ''query'',
      py ''pattern'', py ''url'']"
    by (simp add: priority_keys_def)
  have trunc: "safe_str v (Some 80) =
      (if 80 < length (py_str v) then take 80 (py_str v) @ py ''...'' else py_str v)" for v
    using safe_str_limit [of 80 v] by simp
  show ?thesis
    unfolding format_event_of_kind [OF assms(1)] assms(2) kind_tool_use
      tool_use_body_dict [OF assms(3) assms(4)] keys trunc
    by (rule arg_cong [where f = "attempt _"]) (simp add: fun_eq_iff)
qed

theorem tool_use_first_priority_key_witness:
  "format_opencode_event
     (JObj [(py ''type'', JStr (py ''tool_use'')),
            (py ''part'', JObj [(py ''tool'', JStr (py ''read'')),
               (py ''state'', JObj [(py ''status'', JStr (py ''completed'')),
                  (py ''input'', JObj [(py ''url'', JStr (py ''u'')),
                                       (py ''file_path'', JStr (py ''/a/b.txt''))])])])]) False =
     Returned
       [Print [128295, 32] None [] True,
        Print (py ''Tool Use'') (Some Cyan) [] True,
        Print (py '' (read)'') (Some Cyan) [] True,
        Print (py '' [completed]'') (Some Green) [] True,
        newline,
        indent, Print (py ''file_path: '') (Some Dim) [] True,
        Print (py ''/a/b.txt'') (Some Green) [10] False,
        newline]"
  using tool_use_first_priority_key
    [of "[(py ''type'', JStr (py ''tool_use'')),
            (py ''part'', JObj [(py ''tool'', JStr (py ''read'')),
               (py ''state'', JObj [(py ''status'', JStr (py ''completed'')),
                  (py ''input'', JObj [(py ''url'', JStr (py ''u'')),
                                       (py ''file_path'', JStr (py ''/a/b.txt''))])])])]"
        "[(py ''tool'', JStr (py ''read'')),
               (py ''state'', JObj [(py ''status'', JStr (py ''completed'')),
                  (py ''input'', JObj [(py ''url'', JStr (py ''u'')),
                                       (py ''file_path'', JStr (py ''/a/b.txt''))])])]"
        "[(py ''status'', JStr (py ''completed'')),
                  (py ''input'', JObj [(py ''url'', JStr (py ''u'')),
                                       (py ''file_path'', JStr (py ''/a/b.txt''))])]"
        "[(py ''url'', JStr (py ''u'')), (py ''file_path'', JStr (py ''/a/b.txt''))]" False]
  by (simp add: dict_get_def debug_prefix_def)

section \<open>Error events\<close>

lemma kind_error:
  "kind_icon (py ''error'') = [10060]" "kind_style (py ''error'') = Red"
  "title (replace_char 95 32 (py ''error'')) = py ''Error''"
  "event_body (py ''error'') part err = error_body err"
  by (simp_all add: kind_icon_def kind_style_def event_styles_def event_body_def
        title_def replace_char_def is_cased_def to_upper_def to_lower_def)

lemma safe_str_200:
  "safe_str v (Some 200) =
     (if 200 < length (py_str v) then take 200 (py_str v) @ py ''...'' else py_str v)"
  using safe_str_limit [of 200 v] by simp

text \<open>
  Claim C7. An \<^verbatim>\<open>error\<close> event whose \<^verbatim>\<open>error\<close> payload is a mapping and whose
  \<^verbatim>\<open>error.data\<close> is a mapping (an absent one counts as the empty mapping) renders
  as: the debug prefix, the icon, the label, the end of the header line, then one
  indented line made of the name followed by a colon and a space, and of the message,
  then the closing blank line. The name is \<^verbatim>\<open>error.name\<close>, or the string
  \<^verbatim>\<open>Error\<close> when the key is absent; the message is \<^verbatim>\<open>error.data.message\<close>, or the
  stringified error object when the key is absent; it is cut to 200 characters plus
  \<^verbatim>\<open>...\<close> when longer.
\<close>

theorem error_event_body_line:
  assumes "dict_get ev (py ''type'') (JStr (py ''unknown'')) = JStr (py ''error'')"
    and "dict_get ev (py ''error'') (JObj []) = JObj err"
    and "dict_get err (py ''data'') (JObj []) = JObj data"
    and "name = dict_get err (py ''name'') (JStr (py ''Error''))"
    and "msg = py_str (dict_get data (py ''message'') (JStr (py_str (JObj err))))"
  shows "format_opencode_event (JObj ev) debug =
     attempt (debug_prefix debug (dict_get ev (py ''timestamp'') (JStr []))
                (dict_get ev (py ''sessionID'') (JStr [])))
       (\<lambda>dbg. Returned
          (dbg
           @ [Print ([10060] @ py '' '') None [] True,
              Print (py ''Error'') (Some Red) [] True,
              newline,
              indent,
              Print (py_str name @ py '': '') (Some (Plus Red Bright)) [] True,
              Print (if 200 < length msg then take 200 msg @ py ''...'' else msg)
                (Some Red) [10] False,
              newline]))"
proof -
  have body: "error_body (JObj err) =
      Returned
        [newline, indent,
         Print (py_str name @ py '': '') (Some (Plus Red Bright)) [] True,
         Print (if 200 < length msg then take 200 msg @ py ''...'' else msg)
           (Some Red) [10] False]"
    using assms(3,4,5) by (simp add: error_body_def safe_str_200 del: py_str.simps)
  show ?thesis
    unfolding format_event_of_kind [OF assms(1)] assms(2) kind_error body
    by (rule arg_cong [where f = "attempt _"]) (simp add: fun_eq_iff)
qed

lemmas repr_defs = repr_str_def repr_char_def isprintable_def hexdigit_def str_int_def

theorem error_event_body_line_witness:
  "format_opencode_event
     (JObj [(py ''type'', JStr (py ''error'')),
            (py ''error'', JObj [(py ''name'', JStr (py ''Timeout''))])]) False =
     Returned
       [Print [10060, 32] None [] True,
        Print (py ''Error'') (Some Red) [] True,
        newline,
        indent,
        Print (py ''Timeout: '') (Some (Plus Red Bright)) [] True,
        Print (py ''{'' @ [39] @ py ''name'' @ [39] @ py '': '' @ [39] @ py ''Timeout'' @ [39]
               @ py ''}'') (Some Red) [10] False,
        newline]"
  using error_event_body_line
    [of "[(py ''type'', JStr (py ''error'')),
          (py ''error'', JObj [(py ''name'', JStr (py ''Timeout''))])]"
        "[(py ''name'', JStr (py ''Timeout''))]" "[]" "JStr (py ''Timeout'')"
        "py ''{'' @ [39] @ py ''name'' @ [39] @ py '': '' @ [39] @ py ''Timeout'' @ [39] @ py ''}''"
        False]
  by (simp add: dict_get_def debug_prefix_def repr_defs)

section \<open>Events without a kind\<close>

lemma kind_unknown:
  "kind_icon (py ''unknown'') = [9210]" "kind_style (py ''unknown'') = Dim"
  "title (replace_char 95 32 (py ''unknown'')) = py ''Unknown''"
  "event_body (py ''unknown'') part err = unknown_body part err"
  by (simp_all add: kind_icon_def kind_style_def event_styles_def event_body_def
        title_def replace_char_def is_cased_def to_upper_def to_lower_def)

lemma safe_str_100:
  "safe_str v (Some 100) =
     (if 100 < length (py_str v) then take 100 (py_str v) @ py ''...'' else py_str v)"
  using safe_str_limit [of 100 v] by simp

text \<open>
  Claim C10. An event object with no \<^verbatim>\<open>type\<close> key renders as an event of kind
  \<^verbatim>\<open>unknown\<close>: the fallback icon (U+23FA), the label \<^verbatim>\<open>Unknown\<close> in the dim
  fallback style, and the rule for unrecognised kinds: one indented line with the
  stringified \<^verbatim>\<open>part\<close> (or the \<^verbatim>\<open>error\<close> payload when \<^verbatim>\<open>part\<close> is empty) cut to
  100 characters, or no body line when both are empty.
\<close>

theorem absent_type_is_unknown:
  assumes "map_of ev (py ''type'') = None"
    and "part = dict_get ev (py ''part'') (JObj [])"
    and "err = dict_get ev (py ''error'') (JObj [])"
    and "shown = (if truthy part then part else err)"
  shows "format_opencode_event (JObj ev) debug =
     attempt (debug_prefix debug (dict_get ev (py ''timestamp'') (JStr []))
                (dict_get ev (py ''sessionID'') (JStr [])))
       (\<lambda>dbg. Returned
          (dbg
           @ [Print ([9210] @ py '' '') None [] True,
              Print (py ''Unknown'') (Some Dim) [] True,
              newline]
           @ (if truthy shown then
                [indent,
                 Print (if 100 < length (py_str shown) then take 100 (py_str shown) @ py ''...''
                        else py_str shown) (Some Dim) [10] False]
              else [])
           @ [newline]))"
proof -
  have ty: "dict_get ev (py ''type'') (JStr (py ''unknown'')) = JStr (py ''unknown'')"
    using assms(1) by (simp add: dict_get_def)
  have body: "unknown_body part err =
      Returned
        (newline #
         (if truthy shown then
            [indent,
             Print (if 100 < length (py_str shown) then take 100 (py_str shown) @ py ''...''
                    else py_str shown) (Some Dim) [10] False]
          else []))"
    using assms(4) by (simp add: unknown_body_def safe_str_100 Let_def del: py_str.simps)
  show ?thesis
    unfolding format_event_of_kind [OF ty] kind_unknown assms(2,3) [symmetric] body
    by (rule arg_cong [where f = "attempt _"]) (simp add: fun_eq_iff)
qed

theorem absent_type_is_unknown_witness:
  "format_opencode_event (JObj [(py ''part'', JObj [(py ''n'', JInt 7)])]) False =
     Returned
       [Print [9210, 32] None [] True,
        Print (py ''Unknown'') (Some Dim) [] True,
        newline,
        indent,
        Print (py ''{'' @ [39] @ py ''n'' @ [39] @ py '': 7}'') (Some Dim) [10] False,
        newline]"
  using absent_type_is_unknown
    [of "[(py ''part'', JObj [(py ''n'', JInt 7)])]" "JObj [(py ''n'', JInt 7)]" "JObj []"
        "JObj [(py ''n'', JInt 7)]" False]
  by (simp add: dict_get_def debug_prefix_def repr_defs dec.simps)

section \<open>Evaluation at concrete events\<close>

lemmas render_defs =
  format_opencode_event_def event_body_def dict_get_def debug_prefix_def event_styles_def
  title_def replace_char_def is_cased_def to_upper_def to_lower_def

lemmas number_defs =
  format_0f_def int_to_float_def round_to_double_def str_int_def

lemma bit_length_500: "bit_length 500 = 9"
  by (simp add: bit_length.simps)

text \<open>
  Claim C5. A \<^verbatim>\<open>step_finish\<close> event of step type \<^verbatim>\<open>build\<close> with \<^verbatim>\<open>start\<close> 0 and
  \<^verbatim>\<open>end\<close> 500: both time stamps are present and numeric and their difference is 500,
  yet the header carries no duration, because the test \<^verbatim>\<open>if start_time and end_time\<close>
  takes the time stamp 0 for a missing one. With \<^verbatim>\<open>start\<close> 1000 and \<^verbatim>\<open>end\<close> 1500 the
  header carries \<^verbatim>\<open> - build\<close> and \<^verbatim>\<open> (500ms)\<close>.
\<close>

theorem step_finish_start_zero:
  "format_opencode_event
     (JObj [(py ''type'', JStr (py ''step_finish'')),
            (py ''part'', JObj [(py ''type'', JStr (py ''build'')),
               (py ''time'', JObj [(py ''start'', JInt 0), (py ''end'', JInt 500)])])]) False =
     Returned
       [Print [9989, 32] None [] True,
        Print (py ''Step Finish'') (Some Green) [] True,
        Print (py '' - build'') (Some Green) [] True,
        newline,
        newline]
   \<and> format_opencode_event
     (JObj [(py ''type'', JStr (py ''step_finish'')),
            (py ''part'', JObj [(py ''type'', JStr (py ''build'')),
               (py ''time'', JObj [(py ''start'', JInt 1000), (py ''end'', JInt 1500)])])]) False =
     Returned
       [Print [9989, 32] None [] True,
        Print (py ''Step Finish'') (Some Green) [] True,
        Print (py '' - build'') (Some Green) [] True,
        Print (py '' (500ms)'') (Some Dim) [] True,
        newline,
        newline]"
  by (simp add: render_defs step_finish_body_def step_duration_def py_sub_def number_defs
        bit_length_500 dec.simps)

text \<open>
  Against claim C1 as stated: a \<^verbatim>\<open>tool_use\<close> event whose \<^verbatim>\<open>part\<close> is a string, and
  an \<^verbatim>\<open>error\<close> event whose \<^verbatim>\<open>error.data\<close> is a number, raise \<^verbatim>\<open>AttributeError\<close>
  after the icon and the label have been printed.
\<close>

theorem ill_typed_payload_raises:
  "format_opencode_event
     (JObj [(py ''type'', JStr (py ''tool_use'')), (py ''part'', JStr (py ''abc''))]) False =
     Raised AttributeError
       [Print [128295, 32] None [] True, Print (py ''Tool Use'') (Some Cyan) [] True]
   \<and> format_opencode_event
     (JObj [(py ''type'', JStr (py ''error'')),
            (py ''error'', JObj [(py ''data'', JInt 5)])]) False =
     Raised AttributeError
       [Print [10060, 32] None [] True, Print (py ''Error'') (Some Red) [] True]"
  by (simp add: render_defs tool_use_body_def error_body_def)

section \<open>Text and thinking events\<close>

lemma kind_text:
  "kind_icon (py ''text'') = [128172]" "kind_style (py ''text'') = Reset"
  "title (replace_char 95 32 (py ''text'')) = py ''Text''"
  "event_body (py ''text'') part err = text_body part"
  by (simp_all add: kind_icon_def kind_style_def event_styles_def event_body_def
        title_def replace_char_def is_cased_def to_upper_def to_lower_def)

lemma kind_thinking:
  "kind_icon (py ''thinking'') = [129300]" "kind_style (py ''thinking'') = Magenta"
  "title (replace_char 95 32 (py ''thinking'')) = py ''Thinking''"
  "event_body (py ''thinking'') part err = thinking_body part"
  by (simp_all add: kind_icon_def kind_style_def event_styles_def event_body_def
        title_def replace_char_def is_cased_def to_upper_def to_lower_def)

lemma more_lines_call:
  "more_lines n =
     [indent, Print (py ''... ('' @ dec n @ py '' more lines)'') (Some Dim) [10] True]"
  by (simp add: more_lines_def)

lemma text_body_str:
  assumes "dict_get part (py ''text'') (JStr []) = JStr t" and "t \<noteq> []"
  shows "text_body (JObj part) =
     Returned
       ([newline] @ text_lines 0 (take 5 (split_nl t))
        @ (if 5 < length (split_nl t) then more_lines (length (split_nl t) - 5) else []))"
  using assms by (simp add: text_body_def Let_def min_def)

lemma thinking_body_str:
  assumes "dict_get part (py ''text'') (JStr []) = JStr t" and "t \<noteq> []"
  shows "thinking_body (JObj part) =
     Returned
       ([newline] @ thinking_lines (take 3 (split_nl t))
        @ (if 3 < length (split_nl t) then more_lines (length (split_nl t) - 3) else []))"
  using assms by (simp add: thinking_body_def Let_def min_def)

lemma text_lines_filter:
  "text_lines i ls =
     concat (map (\<lambda>(j, l). [indent, Print l (Some (if j = 0 then Reset else Dim)) [10] False])
       (filter (\<lambda>(j, l). strip l \<noteq> [] \<or> j = 0) (enumerate i ls)))"
  by (induction ls arbitrary: i) simp_all

lemma thinking_lines_filter:
  "thinking_lines ls =
     concat (map (\<lambda>l. [indent, Print l (Some Magenta) [10] False])
       (filter (\<lambda>l. strip l \<noteq> []) ls))"
  by (induction ls) simp_all

lemma text_event_output:
  assumes "dict_get ev (py ''type'') (JStr (py ''unknown'')) = JStr (py ''text'')"
    and "dict_get ev (py ''part'') (JObj []) = JObj part"
    and "dict_get part (py ''text'') (JStr []) = JStr t" and "t \<noteq> []"
  shows "format_opencode_event (JObj ev) debug =
     attempt (debug_prefix debug (dict_get ev (py ''timestamp'') (JStr []))
                (dict_get ev (py ''sessionID'') (JStr [])))
       (\<lambda>dbg. Returned
          (dbg
           @ ([Print ([128172] @ py '' '') None [] True,
               Print (py ''Text'') (Some Reset) [] True, newline]
              @ text_lines 0 (take 5 (split_nl t)))
           @ (if 5 < length (split_nl t) then more_lines (length (split_nl t) - 5) else [])
           @ [newline]))"
  unfolding format_event_of_kind [OF assms(1)] assms(2) kind_text
    text_body_str [OF assms(3) assms(4)]
  by (rule arg_cong [where f = "attempt _"]) (simp add: fun_eq_iff)

lemma thinking_event_output:
  assumes "dict_get ev (py ''type'') (JStr (py ''unknown'')) = JStr (py ''thinking'')"
    and "dict_get ev (py ''part'') (JObj []) = JObj part"
    and "dict_get part (py ''text'') (JStr []) = JStr t" and "t \<noteq> []"
  shows "format_opencode_event (JObj ev) debug =
     attempt (debug_prefix debug (dict_get ev (py ''timestamp'') (JStr []))
                (dict_get ev (py ''sessionID'') (JStr [])))
       (\<lambda>dbg. Returned
          (dbg
           @ ([Print ([129300] @ py '' '') None [] True,
               Print (py ''Thinking'') (Some Magenta) [] True, newline]
              @ thinking_lines (take 3 (split_nl t)))
           @ (if 3 < length (split_nl t) then more_lines (length (split_nl t) - 3) else [])
           @ [newline]))"
  unfolding format_event_of_kind [OF assms(1)] assms(2) kind_thinking
    thinking_body_str [OF assms(3) assms(4)]
  by (rule arg_cong [where f = "attempt _"]) (simp add: fun_eq_iff)

text \<open>
  Claim C8. For an event whose \<^verbatim>\<open>part\<close> is a mapping with a non-empty string under
  \<^verbatim>\<open>text\<close>, split at the line feeds into \<open>ls\<close>: a \<^verbatim>\<open>text\<close> event prints, of the
  first five lines, those that are not blank or are the first line (so a blank first
  line is printed as an empty indented entry); a \<^verbatim>\<open>thinking\<close> event prints, of the
  first three lines, those that are not blank, the first line included. A line is blank
  when stripping it leaves nothing.
\<close>

theorem blank_lines_text_and_thinking:
  assumes "dict_get ev (py ''part'') (JObj []) = JObj part"
    and "dict_get part (py ''text'') (JStr []) = JStr t" and "t \<noteq> []"
    and "ls = split_nl t"
  shows "(dict_get ev (py ''type'') (JStr (py ''unknown'')) = JStr (py ''text'') \<longrightarrow>
      format_opencode_event (JObj ev) debug =
        attempt (debug_prefix debug (dict_get ev (py ''timestamp'') (JStr []))
                   (dict_get ev (py ''sessionID'') (JStr [])))
          (\<lambda>dbg. Returned
             (dbg
              @ [Print ([128172] @ py '' '') None [] True,
                 Print (py ''Text'') (Some Reset) [] True, newline]
              @ concat (map (\<lambda>(i, line).
                    [indent, Print line (Some (if i = 0 then Reset else Dim)) [10] False])
                  (filter (\<lambda>(i, line). strip line \<noteq> [] \<or> i = 0) (enumerate 0 (take 5 ls))))
              @ (if 5 < length ls then
                   [indent, Print (py ''... ('' @ dec (length ls - 5) @ py '' more lines)'')
                      (Some Dim) [10] True]
                 else [])
              @ [newline])))
    \<and> (dict_get ev (py ''type'') (JStr (py ''unknown'')) = JStr (py ''thinking'') \<longrightarrow>
      format_opencode_event (JObj ev) debug =
        attempt (debug_prefix debug (dict_get ev (py ''timestamp'') (JStr []))
                   (dict_get ev (py ''sessionID'') (JStr [])))
          (\<lambda>dbg. Returned
             (dbg
              @ [Print ([129300] @ py '' '') None [] True,
                 Print (py ''Thinking'') (Some Magenta) [] True, newline]
              @ concat (map (\<lambda>line. [indent, Print line (Some Magenta) [10] False])
                  (filter (\<lambda>line. strip line \<noteq> []) (take 3 ls)))
              @ (if 3 < length ls then
                   [indent, Print (py ''... ('' @ dec (length ls - 3) @ py '' more lines)'')
                      (Some Dim) [10] True]
                 else [])
              @ [newline])))"
proof (intro conjI impI)
  assume ty: "dict_get ev (py ''type'') (JStr (py ''unknown'')) = JStr (py ''text'')"
  show "format_opencode_event (JObj ev) debug =
        attempt (debug_prefix debug (dict_get ev (py ''timestamp'') (JStr []))
                   (dict_get ev (py ''sessionID'') (JStr [])))
          (\<lambda>dbg. Returned
             (dbg
              @ [Print ([128172] @ py '' '') None [] True,
                 Print (py ''Text'') (Some Reset) [] True, newline]
              @ concat (map (\<lambda>(i, line).
                    [indent, Print line (Some (if i = 0 then Reset else Dim)) [10] False])
                  (filter (\<lambda>(i, line). strip line \<noteq> [] \<or> i = 0) (enumerate 0 (take 5 ls))))
              @ (if 5 < length ls then
                   [indent, Print (py ''... ('' @ dec (length ls - 5) @ py '' more lines)'')
                      (Some Dim) [10] True]
                 else [])
              @ [newline]))"
    unfolding text_event_output [OF ty assms(1,2,3)] text_lines_filter more_lines_call assms(4)
    by (rule arg_cong [where f = "attempt _"]) (simp add: fun_eq_iff)
next
  assume ty: "dict_get ev (py ''type'') (JStr (py ''unknown'')) = JStr (py ''thinking'')"
  show "format_opencode_event (JObj ev) debug =
        attempt (debug_prefix debug (dict_get ev (py ''timestamp'') (JStr []))
                   (dict_get ev (py ''sessionID'') (JStr [])))
          (\<lambda>dbg. Returned
             (dbg
              @ [Print ([129300] @ py '' '') None [] True,
                 Print (py ''Thinking'') (Some Magenta) [] True, newline]
              @ concat (map (\<lambda>line. [indent, Print line (Some Magenta) [10] False])
                  (filter (\<lambda>line. strip line \<noteq> []) (take 3 ls)))
              @ (if 3 < length ls then
                   [indent, Print (py ''... ('' @ dec (length ls - 3) @ py '' more lines)'')
                      (Some Dim) [10] True]
                 else [])
              @ [newline]))"
    unfolding thinking_event_output [OF ty assms(1,2,3)] thinking_lines_filter more_lines_call
      assms(4)
    by (rule arg_cong [where f = "attempt _"]) (simp add: fun_eq_iff)
qed

theorem blank_lines_text_and_thinking_witness:
  "format_opencode_event
     (JObj [(py ''type'', JStr (py ''text'')),
            (py ''part'', JObj [(py ''text'', JStr ([10] @ py ''foo''))])]) False =
     Returned
       [Print [128172, 32] None [] True, Print (py ''Text'') (Some Reset) [] True, newline,
        indent, Print [] (Some Reset) [10] False,
        indent, Print (py ''foo'') (Some Dim) [10] False,
        newline]
   \<and> format_opencode_event
     (JObj [(py ''type'', JStr (py ''thinking'')),
            (py ''part'', JObj [(py ''text'', JStr ([10] @ py ''foo''))])]) False =
     Returned
       [Print [129300, 32] None [] True, Print (py ''Thinking'') (Some Magenta) [] True, newline,
        indent, Print (py ''foo'') (Some Magenta) [10] False,
        newline]"
  using blank_lines_text_and_thinking
    [of "[(py ''type'', JStr (py ''text'')),
          (py ''part'', JObj [(py ''text'', JStr ([10] @ py ''foo''))])]"
        "[(py ''text'', JStr ([10] @ py ''foo''))]" "[10] @ py ''foo''" "[[], py ''foo'']" False]
    blank_lines_text_and_thinking
    [of "[(py ''type'', JStr (py ''thinking'')),
          (py ''part'', JObj [(py ''text'', JStr ([10] @ py ''foo''))])]"
        "[(py ''text'', JStr ([10] @ py ''foo''))]" "[10] @ py ''foo''" "[[], py ''foo'']" False]
  by (simp add: dict_get_def debug_prefix_def strip_def isspace_def)

lemma text_lines_calls: "c \<in> set (text_lines i ls) \<Longrightarrow> c = indent \<or> \<not> call_markup c"
  by (induction ls arbitrary: i) (auto split: if_splits)

lemma thinking_lines_calls: "c \<in> set (thinking_lines ls) \<Longrightarrow> c = indent \<or> \<not> call_markup c"
  by (induction ls) (auto split: if_splits)

text \<open>
  Claim C6, amended. For a \<^verbatim>\<open>text\<close> event (cap 5) and a \<^verbatim>\<open>thinking\<close> event
  (cap 3) whose \<^verbatim>\<open>part\<close> is a mapping with a non-empty string under \<^verbatim>\<open>text\<close>: when
  the text splits into more lines than the cap, blank lines counted, the output ends with
  exactly one summary line \<^verbatim>\<open>... (N more lines)\<close> before the closing blank line,
  where \<open>N\<close> is the number of lines minus the cap; when it splits into at most as many
  lines as the cap there is no summary line. Nothing printed before that place is a
  summary line.
\<close>

theorem summary_line_counts_every_line:
  assumes "kind = py ''text'' \<and> cap = 5 \<or> kind = py ''thinking'' \<and> cap = 3"
    and "dict_get ev (py ''type'') (JStr (py ''unknown'')) = JStr kind"
    and "dict_get ev (py ''part'') (JObj []) = JObj part"
    and "dict_get part (py ''text'') (JStr []) = JStr t" and "t \<noteq> []"
    and "ls = split_nl t"
  shows "\<exists>shown.
      format_opencode_event (JObj ev) debug =
        attempt (debug_prefix debug (dict_get ev (py ''timestamp'') (JStr []))
                   (dict_get ev (py ''sessionID'') (JStr [])))
          (\<lambda>dbg. Returned
             (dbg @ shown
              @ (if cap < length ls then
                   [indent, Print (py ''... ('' @ dec (length ls - cap) @ py '' more lines)'')
                      (Some Dim) [10] True]
                 else [])
              @ [newline]))
      \<and> (\<forall>n. Print (py ''... ('' @ dec n @ py '' more lines)'') (Some Dim) [10] True
               \<notin> set shown)"
  using assms(1)
proof (elim disjE conjE)
  assume k: "kind = py ''text''" "cap = 5"
  let ?shown = "[Print ([128172] @ py '' '') None [] True,
      Print (py ''Text'') (Some Reset) [] True, newline] @ text_lines 0 (take 5 (split_nl t))"
  have "\<forall>n. Print (py ''... ('' @ dec n @ py '' more lines)'') (Some Dim) [10] True
      \<notin> set ?shown"
    by (auto simp: newline_def indent_def dest: text_lines_calls)
  then show ?thesis
    using text_event_output [OF assms(2) [unfolded k] assms(3,4,5), of debug]
    unfolding more_lines_call k assms(6) by blast
next
  assume k: "kind = py ''thinking''" "cap = 3"
  let ?shown = "[Print ([129300] @ py '' '') None [] True,
      Print (py ''Thinking'') (Some Magenta) [] True, newline]
      @ thinking_lines (take 3 (split_nl t))"
  have "\<forall>n. Print (py ''... ('' @ dec n @ py '' more lines)'') (Some Dim) [10] True
      \<notin> set ?shown"
    by (auto simp: newline_def indent_def dest: thinking_lines_calls)
  then show ?thesis
    using thinking_event_output [OF assms(2) [unfolded k] assms(3,4,5), of debug]
    unfolding more_lines_call k assms(6) by blast
qed

theorem summary_line_counts_every_line_witness:
  "format_opencode_event
     (JObj [(py ''type'', JStr (py ''thinking'')),
            (py ''part'', JObj [(py ''text'', JStr (py ''a'' @ [10, 10, 10, 10] @ py ''b''))])])
     False =
     Returned
       [Print [129300, 32] None [] True, Print (py ''Thinking'') (Some Magenta) [] True, newline,
        indent, Print (py ''a'') (Some Magenta) [10] False,
        indent, Print (py ''... (2 more lines)'') (Some Dim) [10] True,
        newline]"
  using summary_line_counts_every_line
    [of "py ''thinking''" 3
        "[(py ''type'', JStr (py ''thinking'')),
          (py ''part'', JObj [(py ''text'', JStr (py ''a'' @ [10, 10, 10, 10] @ py ''b''))])]"
        "[(py ''text'', JStr (py ''a'' @ [10, 10, 10, 10] @ py ''b''))]"
        "py ''a'' @ [10, 10, 10, 10] @ py ''b''" "[py ''a'', [], [], [], py ''b'']" False]
  by (simp add: render_defs thinking_body_def more_lines_def strip_def isspace_def dec.simps)

text \<open>
  Against claim C6 as stated: the text \<^verbatim>\<open>a\<close> followed by six line feeds has one line
  that is not skipped, which is under the cap of five, and yet the summary
  \<^verbatim>\<open>... (2 more lines)\<close> is printed, because the cap is on all seven lines.
\<close>

theorem few_shown_lines_still_summarised:
  "length (filter (\<lambda>line. strip line \<noteq> []) (split_nl (py ''a'' @ [10, 10, 10, 10, 10, 10]))) = 1
   \<and> format_opencode_event
     (JObj [(py ''type'', JStr (py ''text'')),
            (py ''part'', JObj [(py ''text'', JStr (py ''a'' @ [10, 10, 10, 10, 10, 10]))])])
     False =
     Returned
       [Print [128172, 32] None [] True, Print (py ''Text'') (Some Reset) [] True, newline,
        indent, Print (py ''a'') (Some Reset) [10] False,
        indent, Print (py ''... (2 more lines)'') (Some Dim) [10] True,
        newline]"
  by (simp add: render_defs text_body_def more_lines_def strip_def isspace_def dec.simps)

section \<open>Completed renderings\<close>








lemma kind_step_start:
  "kind_icon (py ''step_start'') = [9654, 65039]" "kind_style (py ''step_start'') = Blue"
  "title (replace_char 95 32 (py ''step_start'')) = py ''Step Start''"
  "event_body (py ''step_start'') part err = step_start_body part"
  by (simp_all add: kind_icon_def kind_style_def event_styles_def event_body_def
        title_def replace_char_def is_cased_def to_upper_def to_lower_def)

lemma kind_step_finish:
  "kind_icon (py ''step_finish'') = [9989]" "kind_style (py ''step_finish'') = Green"
  "title (replace_char 95 32 (py ''step_finish'')) = py ''Step Finish''"
  "event_body (py ''step_finish'') part err = step_finish_body part"
  by (simp_all add: kind_icon_def kind_style_def event_styles_def event_body_def
        title_def replace_char_def is_cased_def to_upper_def to_lower_def)

lemma kind_session:
  "event_body (py ''session_start'') part err = Returned [newline]"
  "event_body (py ''session_end'') part err = Returned [newline]"
  by (simp_all add: event_body_def)

lemma kind_unrecognised:
  assumes "ty \<notin> set known_kinds"
  shows "kind_icon ty = [9210]" and "kind_style ty = Dim"
    and "event_body ty part err = unknown_body part err"
  using assms
  by (simp_all add: known_kinds_def kind_icon_def kind_style_def event_styles_def event_body_def)






section \<open>Events on which the renderer returns\<close>

lemma bit_length_bound: "n < 2 ^ bit_length n"
proof (induction n rule: bit_length.induct)
  case (1 n)
  show ?case
  proof (cases "n = 0")
    case True
    then show ?thesis by (simp add: bit_length.simps)
  next
    case False
    with 1 have "n div 2 < 2 ^ bit_length (n div 2)" by simp
    then have "n < 2 * 2 ^ bit_length (n div 2)" by linarith
    with False show ?thesis by (simp add: bit_length.simps [of n])
  qed
qed

lemma bit_length_le: "n < 2 ^ k \<Longrightarrow> bit_length n \<le> k"
proof (induction n arbitrary: k rule: bit_length.induct)
  case (1 n)
  show ?case
  proof (cases "n = 0")
    case True
    then show ?thesis by (simp add: bit_length.simps)
  next
    case False
    with 1(2) obtain j where k: "k = Suc j" by (cases k) auto
    with 1(2) have "n div 2 < 2 ^ j" by simp
    with 1(1) False have "bit_length (n div 2) \<le> j" by simp
    with False k show ?thesis by (simp add: bit_length.simps [of n])
  qed
qed

lemma round_to_double_le: "round_to_double n \<le> 2 ^ bit_length n"
proof (cases "bit_length n \<le> 53")
  case True
  then show ?thesis
    using bit_length_bound [of n] by (simp add: round_to_double_def Let_def)
next
  case False
  define sh where "sh = bit_length n - 53"
  define q where "q = n div 2 ^ sh"
  have k: "bit_length n = 53 + sh" using False by (simp add: sh_def)
  have "n < 2 ^ 53 * 2 ^ sh"
    using bit_length_bound [of n] unfolding k by (simp add: power_add)
  then have "q < 2 ^ 53"
    unfolding q_def by (simp add: less_mult_imp_div_less)
  then have "(q + 1) * 2 ^ sh \<le> 2 ^ 53 * 2 ^ sh" and "q * 2 ^ sh \<le> 2 ^ 53 * 2 ^ sh"
    by (simp_all add: mult_le_mono1)
  then have bound: "(if c then q + 1 else q) * 2 ^ sh \<le> 2 ^ bit_length n" for c
    unfolding k by (simp add: power_add)
  have "round_to_double n =
      (if 2 ^ (sh - 1) < n mod 2 ^ sh \<or> (n mod 2 ^ sh = 2 ^ (sh - 1) \<and> odd q)
       then q + 1 else q) * 2 ^ sh"
    using False unfolding round_to_double_def Let_def sh_def q_def by (rule if_not_P)
  then show ?thesis
    using bound by simp
qed

lemma format_0f_small:
  assumes "\<bar>d\<bar> < 2 ^ 1023"
  shows "\<exists>s. format_0f d = Inr s"
proof -
  from assms have "nat \<bar>d\<bar> < 2 ^ 1023"
    by (simp add: nat_less_iff)
  then have "bit_length (nat \<bar>d\<bar>) \<le> 1023" by (rule bit_length_le)
  then have "(2::nat) ^ bit_length (nat \<bar>d\<bar>) \<le> 2 ^ 1023"
    by (rule power_increasing) simp
  with round_to_double_le [of "nat \<bar>d\<bar>"] have "round_to_double (nat \<bar>d\<bar>) \<le> 2 ^ 1023"
    by (rule order_trans)
  also have "(2::nat) ^ 1023 < 2 ^ 1024"
    by (rule power_strict_increasing) simp_all
  finally have "\<not> 2 ^ 1024 \<le> round_to_double (nat \<bar>d\<bar>)" by simp
  then show ?thesis
    by (simp add: format_0f_def int_to_float_def Let_def del: power_numeral)
qed

lemma is_dictE:
  assumes "is_dict v"
  obtains kvs where "v = JObj kvs"
  using assms by (cases v) simp_all

lemma is_strE:
  assumes "is_str v"
  obtains s where "v = JStr s"
  using assms by (cases v) simp_all

lemma debug_prefix_returns:
  assumes "debug \<and> truthy session_id \<longrightarrow> sliceable session_id"
  shows "\<exists>dbg. debug_prefix debug timestamp session_id = Inr dbg"
  using assms by (cases session_id) (simp_all add: debug_prefix_def Let_def)

lemma tool_use_returns:
  assumes "is_dict part" and "is_dict (field part (py ''state'') (JObj []))"
    and "truthy (field (field part (py ''state'') (JObj [])) (py ''input'') (JObj [])) \<longrightarrow>
         is_dict (field (field part (py ''state'') (JObj [])) (py ''input'') (JObj []))"
  shows "\<exists>body. tool_use_body part = Returned body"
proof -
  from assms(1) obtain p where p: "part = JObj p" by (rule is_dictE)
  from assms(2) obtain st where st: "dict_get p (py ''state'') (JObj []) = JObj st"
    unfolding p field.simps by (rule is_dictE)
  show ?thesis
  proof (cases "is_dict (dict_get st (py ''input'') (JObj []))")
    case True
    then obtain inp where "dict_get st (py ''input'') (JObj []) = JObj inp" by (rule is_dictE)
    from tool_use_body_dict [OF st this] show ?thesis unfolding p by blast
  next
    case False
    with assms(3) have "\<not> truthy (dict_get st (py ''input'') (JObj []))"
      unfolding p field.simps st by blast
    then show ?thesis
      using st unfolding p by (simp add: tool_use_body_def)
  qed
qed

lemma step_start_returns:
  assumes "is_dict part"
  shows "\<exists>body. step_start_body part = Returned body"
proof -
  from assms obtain p where "part = JObj p" by (rule is_dictE)
  then show ?thesis by (simp add: step_start_body_def)
qed

lemma step_duration_returns:
  assumes "truthy start_time \<and> truthy end_time \<longrightarrow> small_difference end_time start_time"
  shows "step_duration start_time end_time = Inr None
    \<or> (\<exists>d. step_duration start_time end_time = Inr (Some d) \<and> \<bar>d\<bar> < 2 ^ 1023)"
  using assms
  by (auto simp: step_duration_def small_difference_def py_sub_def split: option.splits
        simp del: power_numeral)

lemma step_finish_returns:
  assumes "is_dict part" and "is_dict (field part (py ''time'') (JObj []))"
    and "truthy (field (field part (py ''time'') (JObj [])) (py ''start'') JNull)
         \<and> truthy (field (field part (py ''time'') (JObj [])) (py ''end'') JNull) \<longrightarrow>
         small_difference (field (field part (py ''time'') (JObj [])) (py ''end'') JNull)
           (field (field part (py ''time'') (JObj [])) (py ''start'') JNull)"
  shows "\<exists>body. step_finish_body part = Returned body"
proof -
  from assms(1) obtain p where p: "part = JObj p" by (rule is_dictE)
  from assms(2) obtain t where t: "dict_get p (py ''time'') (JObj []) = JObj t"
    unfolding p field.simps by (rule is_dictE)
  have "step_duration (dict_get t (py ''start'') JNull) (dict_get t (py ''end'') JNull) = Inr None
    \<or> (\<exists>d. step_duration (dict_get t (py ''start'') JNull) (dict_get t (py ''end'') JNull)
             = Inr (Some d) \<and> \<bar>d\<bar> < 2 ^ 1023)"
    using assms(3) unfolding p field.simps t by (rule step_duration_returns)
  then show ?thesis
  proof
    assume "step_duration (dict_get t (py ''start'') JNull) (dict_get t (py ''end'') JNull)
        = Inr None"
    then show ?thesis
      using t unfolding p by (simp add: step_finish_body_def)
  next
    assume "\<exists>d. step_duration (dict_get t (py ''start'') JNull) (dict_get t (py ''end'') JNull)
        = Inr (Some d) \<and> \<bar>d\<bar> < 2 ^ 1023"
    then obtain d where d: "step_duration (dict_get t (py ''start'') JNull)
        (dict_get t (py ''end'') JNull) = Inr (Some d)" and "\<bar>d\<bar> < 2 ^ 1023" by blast
    from format_0f_small [OF this(2)] obtain s where "format_0f d = Inr s" by blast
    then show ?thesis
      using t d unfolding p by (simp add: step_finish_body_def)
  qed
qed

lemma py_split_nl_returns:
  assumes "truthy v \<longrightarrow> is_str v"
  shows "\<not> truthy v \<or> (\<exists>lines. py_split_nl v = Inr lines)"
  using assms by (cases v) auto

lemma text_returns:
  assumes "is_dict part"
    and "truthy (field part (py ''text'') (JStr [])) \<longrightarrow> is_str (field part (py ''text'') (JStr []))"
  shows "\<exists>body. text_body part = Returned body"
proof -
  from assms(1) obtain p where p: "part = JObj p" by (rule is_dictE)
  from py_split_nl_returns [OF assms(2)] show ?thesis
    unfolding p field.simps by (auto simp: text_body_def Let_def)
qed

lemma thinking_returns:
  assumes "is_dict part"
    and "truthy (field part (py ''text'') (JStr [])) \<longrightarrow> is_str (field part (py ''text'') (JStr []))"
  shows "\<exists>body. thinking_body part = Returned body"
proof -
  from assms(1) obtain p where p: "part = JObj p" by (rule is_dictE)
  from py_split_nl_returns [OF assms(2)] show ?thesis
    unfolding p field.simps by (auto simp: thinking_body_def Let_def)
qed

lemma error_returns:
  assumes "is_dict error_data" and "is_dict (field error_data (py ''data'') (JObj []))"
  shows "\<exists>body. error_body error_data = Returned body"
proof -
  from assms(1) obtain e where e: "error_data = JObj e" by (rule is_dictE)
  from assms(2) obtain d where "dict_get e (py ''data'') (JObj []) = JObj d"
    unfolding e field.simps by (rule is_dictE)
  then show ?thesis
    unfolding e by (simp add: error_body_def del: py_str.simps)
qed

lemma unknown_returns: "\<exists>body. unknown_body part error_data = Returned body"
  by (simp add: unknown_body_def Let_def)

lemma event_body_returns:
  assumes "well_typed (JObj ev) debug"
    and "dict_get ev (py ''type'') (JStr (py ''unknown'')) = JStr ty"
  shows "\<exists>body. event_body ty (dict_get ev (py ''part'') (JObj []))
           (dict_get ev (py ''error'') (JObj [])) = Returned body"
proof (cases "ty \<in> set known_kinds")
  case False
  then show ?thesis
    by (simp add: kind_unrecognised unknown_returns)
next
  case True
  then consider "ty = py ''tool_use''" | "ty = py ''step_start''" | "ty = py ''step_finish''"
    | "ty = py ''text''" | "ty = py ''thinking''" | "ty = py ''error''"
    | "ty = py ''session_start''" | "ty = py ''session_end''"
    unfolding known_kinds_def set_simps insert_iff empty_iff by blast
  then show ?thesis
  proof cases
    case 1
    from assms show ?thesis
      unfolding 1 kind_tool_use well_typed_def Let_def field.simps
      by (intro tool_use_returns) blast+
  next
    case 2
    from assms show ?thesis
      unfolding 2 kind_step_start well_typed_def Let_def field.simps
      by (intro step_start_returns) blast+
  next
    case 3
    from assms show ?thesis
      unfolding 3 kind_step_finish well_typed_def Let_def field.simps
      by (intro step_finish_returns) blast+
  next
    case 4
    from assms show ?thesis
      unfolding 4 kind_text well_typed_def Let_def field.simps
      by (intro text_returns) blast+
  next
    case 5
    from assms show ?thesis
      unfolding 5 kind_thinking well_typed_def Let_def field.simps
      by (intro thinking_returns) blast+
  next
    case 6
    from assms show ?thesis
      unfolding 6 kind_error well_typed_def Let_def field.simps
      by (intro error_returns) blast+
  next
    case 7
    show ?thesis unfolding 7 kind_session by blast
  next
    case 8
    show ?thesis unfolding 8 kind_session by blast
  qed
qed

text \<open>
  Claim C1, amended. The renderer returns on every event object that is well typed:
  \<^verbatim>\<open>type\<close> is absent or a string; under \<^verbatim>\<open>--debug\<close> a non-empty \<^verbatim>\<open>sessionID\<close>
  is a string or a list; and, for the kind at hand, \<^verbatim>\<open>tool_use\<close>: \<^verbatim>\<open>part\<close> and
  \<^verbatim>\<open>part.state\<close> are mappings and a non-empty \<^verbatim>\<open>part.state.input\<close> is a mapping;
  \<^verbatim>\<open>step_start\<close>: \<^verbatim>\<open>part\<close> is a mapping; \<^verbatim>\<open>step_finish\<close>: \<^verbatim>\<open>part\<close> and
  \<^verbatim>\<open>part.time\<close> are mappings and, when \<^verbatim>\<open>start\<close> and \<^verbatim>\<open>end\<close> are both truthy, they
  are integers less than \<open>2 ^ 1023\<close> apart; \<^verbatim>\<open>text\<close> and \<^verbatim>\<open>thinking\<close>: \<^verbatim>\<open>part\<close>
  is a mapping and a non-empty \<^verbatim>\<open>part.text\<close> is a string; \<^verbatim>\<open>error\<close>: \<^verbatim>\<open>error\<close> and
  \<^verbatim>\<open>error.data\<close> are mappings. An absent key counts as its default everywhere, and the
  fields that are only stringified (tool name, status, title, argument value, step type,
  error name and message, time stamp, and the payload of an unrecognised kind) may hold
  any value.
\<close>

theorem well_typed_event_renders:
  assumes "well_typed event debug"
  shows "\<exists>cs. format_opencode_event event debug = Returned cs"
proof -
  from assms have "is_dict event"
    unfolding well_typed_def Let_def by blast
  then obtain ev where ev: "event = JObj ev" by (rule is_dictE)
  from assms have "is_str (dict_get ev (py ''type'') (JStr (py ''unknown'')))"
    unfolding ev well_typed_def Let_def field.simps by blast
  then obtain ty where ty: "dict_get ev (py ''type'') (JStr (py ''unknown'')) = JStr ty"
    by (rule is_strE)
  from assms have "debug \<and> truthy (dict_get ev (py ''sessionID'') (JStr []))
      \<longrightarrow> sliceable (dict_get ev (py ''sessionID'') (JStr []))"
    unfolding ev well_typed_def Let_def field.simps by blast
  from debug_prefix_returns [OF this] obtain dbg
    where dbg: "debug_prefix debug (dict_get ev (py ''timestamp'') (JStr []))
        (dict_get ev (py ''sessionID'') (JStr [])) = Inr dbg" by blast
  from event_body_returns [OF assms [unfolded ev] ty] obtain body
    where body: "event_body ty (dict_get ev (py ''part'') (JObj []))
        (dict_get ev (py ''error'') (JObj [])) = Returned body" by blast
  show ?thesis
    unfolding ev format_event_of_kind [OF ty] dbg body by simp
qed

theorem well_typed_event_renders_witness:
  "well_typed
     (JObj [(py ''type'', JStr (py ''tool_use'')),
            (py ''sessionID'', JStr (py ''abcdefghij'')),
            (py ''timestamp'', JInt 12),
            (py ''part'', JObj [(py ''tool'', JInt 5),
               (py ''state'', JObj [(py ''status'', JNull),
                  (py ''title'', JArr [JStr (py ''x'')]),
                  (py ''input'', JObj [(py ''path'', JObj [(py ''a'', JBool True)])])])])]) True
   \<and> format_opencode_event
     (JObj [(py ''type'', JStr (py ''tool_use'')),
            (py ''sessionID'', JStr (py ''abcdefghij'')),
            (py ''timestamp'', JInt 12),
            (py ''part'', JObj [(py ''tool'', JInt 5),
               (py ''state'', JObj [(py ''status'', JNull),
                  (py ''title'', JArr [JStr (py ''x'')]),
                  (py ''input'', JObj [(py ''path'', JObj [(py ''a'', JBool True)])])])])]) True =
     Returned
       [Print (py ''[12] (session: abcdefgh...)'') (Some Dim) [32] True,
        Print [128295, 32] None [] True,
        Print (py ''Tool Use'') (Some Cyan) [] True,
        Print (py '' (5)'') (Some Cyan) [] True,
        newline,
        indent, Print (py ''Title: ['' @ [39] @ py ''x'' @ [39] @ py '']'') (Some Dim) [10] True,
        indent, Print (py ''path: '') (Some Dim) [] True,
        Print (py ''{'' @ [39] @ py ''a'' @ [39] @ py '': True}'') (Some Green) [10] False,
        newline]"
  (is "well_typed ?ev True \<and> format_opencode_event ?ev True = Returned ?cs")
proof -
  have wt: "well_typed ?ev True"
    by (simp add: well_typed_def dict_get_def)
  have out: "format_opencode_event ?ev True = Returned ?cs"
    by (simp add: render_defs tool_use_body_def priority_keys_def print_debug_info_def
          slice_to_def safe_str_def repr_defs dec.simps)
  from well_typed_event_renders [OF wt] wt out show ?thesis
    by simp
qed

section \<open>The closing blank line\<close>

























end
